theory Spec2Isabelle
  imports Complex_Main
begin

section \<open>Floating-point values\<close>

text \<open>
  Every temperature, the latitude and the cumulative thermal time are IEEE doubles in the
  program (Python \<^verbatim>\<open>float\<close> for the constants, \<^verbatim>\<open>numpy.float64\<close> for what is read from the
  data frame). The model keeps what the control flow of the program can observe of them:
  a value is a number, one of the two infinities, or NaN. NaN is an ordinary input here:
  \<^verbatim>\<open>read_weather\<close> turns the sentinel \<^verbatim>\<open>-999\<close> into NaN (\<^verbatim>\<open>na_values=[-999]\<close>).
  Numbers are exact reals: rounding, overflow and the sign of zero are not modelled.
\<close>

datatype float64 = Num real | PInf | NInf | NaN

text \<open>Comparisons: every comparison with NaN is false.\<close>

fun flt :: "float64 \<Rightarrow> float64 \<Rightarrow> bool" where
  "flt NaN _ = False"
| "flt _ NaN = False"
| "flt (Num x) (Num y) = (x < y)"
| "flt (Num _) PInf = True"
| "flt NInf (Num _) = True"
| "flt NInf PInf = True"
| "flt _ _ = False"

fun fle :: "float64 \<Rightarrow> float64 \<Rightarrow> bool" where
  "fle NaN _ = False"
| "fle _ NaN = False"
| "fle (Num x) (Num y) = (x \<le> y)"
| "fle NInf _ = True"
| "fle _ PInf = True"
| "fle _ _ = False"

definition fge :: "float64 \<Rightarrow> float64 \<Rightarrow> bool" where
  "fge a b = fle b a"

text \<open>Arithmetic: NaN propagates; the undefined forms of IEEE 754 give NaN.\<close>

fun fneg :: "float64 \<Rightarrow> float64" where
  "fneg (Num x) = Num (- x)"
| "fneg PInf = NInf"
| "fneg NInf = PInf"
| "fneg NaN = NaN"

fun fadd :: "float64 \<Rightarrow> float64 \<Rightarrow> float64" where
  "fadd NaN _ = NaN"
| "fadd _ NaN = NaN"
| "fadd (Num x) (Num y) = Num (x + y)"
| "fadd PInf NInf = NaN"
| "fadd NInf PInf = NaN"
| "fadd PInf _ = PInf"
| "fadd NInf _ = NInf"
| "fadd (Num _) b = b"

definition fsub :: "float64 \<Rightarrow> float64 \<Rightarrow> float64" where
  "fsub a b = fadd a (fneg b)"

text \<open>An infinity of the sign of a real, NaN for zero.\<close>

definition inf_of_sign :: "real \<Rightarrow> float64" where
  "inf_of_sign s = (if 0 < s then PInf else if s < 0 then NInf else NaN)"

fun fmul :: "float64 \<Rightarrow> float64 \<Rightarrow> float64" where
  "fmul NaN _ = NaN"
| "fmul _ NaN = NaN"
| "fmul (Num x) (Num y) = Num (x * y)"
| "fmul (Num x) PInf = inf_of_sign x"
| "fmul (Num x) NInf = inf_of_sign (- x)"
| "fmul PInf (Num y) = inf_of_sign y"
| "fmul NInf (Num y) = inf_of_sign (- y)"
| "fmul PInf PInf = PInf"
| "fmul NInf NInf = PInf"
| "fmul PInf NInf = NInf"
| "fmul NInf PInf = NInf"

text \<open>
  Division as \<^verbatim>\<open>numpy.float64\<close> does it: a zero divisor raises nothing, the quotient is
  an infinity of the sign of the dividend, and NaN when the dividend is zero or NaN.
\<close>

fun fdiv :: "float64 \<Rightarrow> float64 \<Rightarrow> float64" where
  "fdiv NaN _ = NaN"
| "fdiv _ NaN = NaN"
| "fdiv (Num x) (Num y) = (if y = 0 then inf_of_sign x else Num (x / y))"
| "fdiv (Num _) PInf = Num 0"
| "fdiv (Num _) NInf = Num 0"
| "fdiv PInf (Num y) = (if 0 \<le> y then PInf else NInf)"
| "fdiv NInf (Num y) = (if 0 \<le> y then NInf else PInf)"
| "fdiv _ _ = NaN"

section \<open>Calibration constants\<close>

definition T_THLD :: float64 where "T_THLD = Num 10"
definition T_BASE :: float64 where "T_BASE = Num 6"
definition T_OPT :: float64 where "T_OPT = Num 100"
definition T_MAX :: float64 where "T_MAX = Num 100"

section \<open>The temperature response\<close>

text \<open>
  \<^verbatim>\<open>thermal_time(t_base, t_opt, tmax, tmp)\<close>: the three branches of the source in the
  source's order.
\<close>

definition thermal_time :: "float64 \<Rightarrow> float64 \<Rightarrow> float64 \<Rightarrow> float64 \<Rightarrow> float64" where
  "thermal_time t_base t_opt tmax tmp =
     (if fle tmp t_base \<or> fge tmp tmax then Num 0
      else if flt tmp t_opt then fsub tmp t_base
      else fmul (fdiv (fsub tmax tmp) (fsub tmax t_opt)) (fsub t_opt t_base))"

section \<open>Exceptions\<close>

text \<open>
  What can be raised while a run goes on: \<open>SystemExit\<close> by \<^verbatim>\<open>argparse\<close>, \<open>OSError\<close>
  and \<open>ParserError\<close> while a directory or an input file is read, \<open>EmptyDataError\<close> by
  \<^verbatim>\<open>pandas.read_csv\<close> on a file without data lines, \<open>ValueError\<close> by
  \<^verbatim>\<open>DataFrame.rolling\<close>, \<open>KeyError\<close> by \<^verbatim>\<open>DataFrame.drop\<close> and by a read of a column
  that the frame does not have, and \<open>ZeroDivisionError\<close> by a division of Python floats.
\<close>

datatype error =
  SystemExit | OSError | ParserError | EmptyDataError | ValueError | KeyError | ZeroDivisionError

section \<open>The response on Python floats\<close>

text \<open>
  \<^verbatim>\<open>thermal_time\<close> once more, the same three branches, for arguments that are Python
  floats and not \<^verbatim>\<open>numpy.float64\<close>: the operator \<^verbatim>\<open>/\<close> of Python floats raises
  \<open>ZeroDivisionError\<close> when the divisor is zero, whatever the dividend, where the division
  of \<^verbatim>\<open>numpy.float64\<close> returns an infinity or NaN. Subtraction, multiplication and the
  comparisons are the same for both.
\<close>

definition py_div :: "float64 \<Rightarrow> float64 \<Rightarrow> error + float64" where
  "py_div a b = (if b = Num 0 then Inl ZeroDivisionError else Inr (fdiv a b))"

definition thermal_time_pyfloat ::
  "float64 \<Rightarrow> float64 \<Rightarrow> float64 \<Rightarrow> float64 \<Rightarrow> error + float64" where
  "thermal_time_pyfloat t_base t_opt tmax tmp =
     (if fle tmp t_base \<or> fge tmp tmax then Inr (Num 0)
      else if flt tmp t_opt then Inr (fsub tmp t_base)
      else (case py_div (fsub tmax tmp) (fsub tmax t_opt) of
              Inl err \<Rightarrow> Inl err
            | Inr q \<Rightarrow> Inr (fmul q (fsub t_opt t_base))))"

section \<open>The accumulator step\<close>

text \<open>
  \<^verbatim>\<open>cum_thermal_time(latitude, doy, tmp, tavg, gs, tt0)\<close>. The season flag \<open>gs\<close> is the
  integer of the source, 1 for the growing season and 0 for the dormant one; the day of
  the year is an integer. The two conditional assignments to \<open>gs\<close> are kept as two
  successive bindings.
\<close>

definition GROWING :: int where "GROWING = 1"
definition DORMANT :: int where "DORMANT = 0"

definition cum_thermal_time ::
  "float64 \<Rightarrow> int \<Rightarrow> float64 \<Rightarrow> float64 \<Rightarrow> int \<Rightarrow> float64 \<Rightarrow> int \<times> float64" where
  "cum_thermal_time latitude doy tmp tavg gs tt0 =
     (let gs1 = (if fge latitude (Num 0)
                 then (let g = (if doy < 152 \<and> fge tmp T_THLD then 1 else gs)
                       in (if doy \<ge> 245 \<and> flt tmp T_THLD then 0 else g))
                 else gs);
          tt = (if gs1 = 1 then fadd (thermal_time T_BASE T_OPT T_MAX tavg) tt0 else Num 0)
      in (gs1, tt))"

section \<open>Data frames\<close>

text \<open>
  A row of the data frame. The columns \<^verbatim>\<open>year\<close>, \<^verbatim>\<open>doy\<close>, \<^verbatim>\<open>tmax\<close>, \<^verbatim>\<open>tmin\<close> and
  \<^verbatim>\<open>tavg\<close> are always there; \<^verbatim>\<open>tma\<close> is there only once \<^verbatim>\<open>main\<close> has added it, so it
  is optional and a read of it can fail. Years and days of the year are whole numbers in
  the file; the year is kept as the float it becomes when a row is taken or averaged.
  A file whose year or day column holds the sentinel \<^verbatim>\<open>-999\<close> (a NaN year or day) is
  outside the model.
\<close>

record day =
  year :: float64
  doy :: int
  tmax :: float64
  tmin :: float64
  tavg :: float64
  tma :: "float64 option"

text \<open>
  The world outside the program. \<open>listdir\<close> is \<^verbatim>\<open>os.listdir\<close>. \<open>contents file hlines
  latline\<close> is what a file holds for the two reads of \<^verbatim>\<open>read_weather\<close>: the latitude on
  line \<open>latline\<close> and the columns 0, 1, 3 and 4 of the data lines, those after the first
  \<open>hlines\<close> ones, with \<^verbatim>\<open>-999\<close> read as NaN; or the exception, when the file cannot be
  opened or a line of it cannot be parsed. A file can hold no data line at all:
  \<^verbatim>\<open>pandas.read_csv\<close> with \<^verbatim>\<open>header=None\<close> then raises \<open>EmptyDataError\<close>, so
  \<^verbatim>\<open>read_weather\<close> never returns a table without rows.
\<close>

record env =
  listdir :: "string \<Rightarrow> error + string list"
  contents :: "string \<Rightarrow> int \<Rightarrow> int \<Rightarrow> error + float64 \<times> (int \<times> int \<times> float64 \<times> float64) list"

definition read_weather :: "env \<Rightarrow> string \<Rightarrow> int \<Rightarrow> int \<Rightarrow> error + float64 \<times> day list" where
  "read_weather e file hlines latline =
     (case contents e file hlines latline of
        Inl err \<Rightarrow> Inl err
      | Inr (latitude, rows) \<Rightarrow>
          (if rows = [] then Inl EmptyDataError
           else Inr (latitude,
               map (\<lambda>(y, d, tx, tn).
                      \<lparr>year = Num (of_int y), doy = d, tmax = tx, tmin = tn,
                       tavg = fadd (fmul (Num (1 / 2)) tx) (fmul (Num (1 / 2)) tn),
                       tma = None\<rparr>) rows)))"

subsection \<open>The pandas operations that main calls\<close>

definition fsum :: "float64 list \<Rightarrow> float64" where
  "fsum xs = foldl fadd (Num 0) xs"

text \<open>The mean as pandas takes it: over the values that are not NaN, NaN when there is none.\<close>

definition mean_skipna :: "float64 list \<Rightarrow> float64" where
  "mean_skipna xs =
     (let vs = filter (\<lambda>v. v \<noteq> NaN) xs
      in if vs = [] then NaN else fdiv (fsum vs) (Num (real (length vs))))"

text \<open>
  \<^verbatim>\<open>rolling(window, min_periods=1).mean()\<close> of one column: the trailing window of at most
  \<open>window\<close> rows that ends at each row. pandas refuses a window below \<open>min_periods\<close>, so
  every window that is not positive raises \<open>ValueError\<close>, whatever the frame holds. Before
  it takes the means, pandas replaces the infinities of the column by NaN.
\<close>

fun inf_to_nan :: "float64 \<Rightarrow> float64" where
  "inf_to_nan (Num x) = Num x"
| "inf_to_nan _ = NaN"

definition rolling_mean :: "int \<Rightarrow> float64 list \<Rightarrow> error + float64 list" where
  "rolling_mean window xs =
     (if window \<le> 0 then Inl ValueError
      else Inr (map (\<lambda>i. mean_skipna
                          (drop (Suc i - nat window) (take (Suc i) (map inf_to_nan xs))))
                  [0..<length xs]))"

text \<open>\<^verbatim>\<open>groupby('doy').mean()\<close>: one row for each day of the year, in ascending order.\<close>

definition groupby_doy_mean :: "day list \<Rightarrow> day list" where
  "groupby_doy_mean df =
     map (\<lambda>k. let g = filter (\<lambda>r. doy r = k) df
              in \<lparr>year = mean_skipna (map year g), doy = k,
                  tmax = mean_skipna (map tmax g), tmin = mean_skipna (map tmin g),
                  tavg = mean_skipna (map tavg g), tma = None\<rparr>)
         (sort (remdups (map doy df)))"

text \<open>\<^verbatim>\<open>drop(label)\<close> on the frame indexed by day: a label that is not there raises.\<close>

definition drop_doy :: "int \<Rightarrow> day list \<Rightarrow> error + day list" where
  "drop_doy k df =
     (if k \<in> set (map doy df) then Inr (filter (\<lambda>r. doy r \<noteq> k) df) else Inl KeyError)"

subsection \<open>The two modes\<close>

text \<open>
  Lines 155 to 162 of \<^verbatim>\<open>main\<close>: with \<^verbatim>\<open>all_days\<close> the moving average of \<^verbatim>\<open>tavg\<close> becomes
  the column \<^verbatim>\<open>tma\<close>; without it the frame is averaged by day of the year and day 366 is
  dropped.
\<close>

definition main_frame :: "bool \<Rightarrow> int \<Rightarrow> day list \<Rightarrow> error + day list" where
  "main_frame all_days window df =
     (if all_days then
        (case rolling_mean window (map tavg df) of
           Inl err \<Rightarrow> Inl err
         | Inr ms \<Rightarrow> Inr (map (\<lambda>(r, m). r\<lparr>tma := Some m\<rparr>) (zip df ms)))
      else drop_doy 366 (groupby_doy_mean df))"

section \<open>The output file\<close>

text \<open>
  A line of an output file: the header as the text the program writes, a data line as the
  values that \<^verbatim>\<open>write_tt_line\<close> formats (year, day, tavg, tma, thermal time and flag with
  \<^verbatim>\<open>all_days\<close>; day, tavg, thermal time and flag without). The decimal rendering of the
  numbers of a data line is not modelled; with the whole years and days of the model the
  formats of \<^verbatim>\<open>write_tt_line\<close> accept every row.
\<close>

datatype line =
  Text string
| LineA float64 int float64 float64 float64 int
| LineB int float64 float64 int

definition ljust :: "nat \<Rightarrow> string \<Rightarrow> string" where
  "ljust n s = s @ replicate (n - length s) (CHR '' '')"

fun str_nat :: "nat \<Rightarrow> string" where
  "str_nat n =
     (if n < 10 then [''0123456789'' ! n]
      else str_nat (n div 10) @ [''0123456789'' ! (n mod 10)])"

definition str_int :: "int \<Rightarrow> string" where
  "str_int i = (if i < 0 then ''-'' @ str_nat (nat (- i)) else str_nat (nat i))"

definition write_header_line :: "bool \<Rightarrow> int \<Rightarrow> line" where
  "write_header_line all_days window =
     (if all_days then
        Text (ljust 8 ''YEAR'' @ ljust 8 ''DOY'' @ ljust 8 ''TAVG''
              @ ljust 8 (''TMA'' @ str_int window) @ ljust 8 ''TT'' @ ''GROWING'' @ [CHR 0x0A])
      else
        Text (ljust 8 ''DOY'' @ ljust 8 ''TAVG'' @ ljust 8 ''TT'' @ ''GROWING'' @ [CHR 0x0A]))"

definition write_tt_line :: "bool \<Rightarrow> day \<Rightarrow> float64 \<Rightarrow> int \<Rightarrow> error + line" where
  "write_tt_line all_days r tt gs =
     (if all_days then
        (case tma r of
           None \<Rightarrow> Inl KeyError
         | Some m \<Rightarrow> Inr (LineA (year r) (doy r) (tavg r) m tt gs))
      else Inr (LineB (doy r) (tavg r) tt gs))"

text \<open>The season flag and the cumulative thermal time that a data line carries.\<close>

fun line_state :: "line \<Rightarrow> (int \<times> float64) option" where
  "line_state (Text _) = None"
| "line_state (LineA _ _ _ _ tt gs) = Some (gs, tt)"
| "line_state (LineB _ _ tt gs) = Some (gs, tt)"

fun line_doy :: "line \<Rightarrow> int option" where
  "line_doy (Text _) = None"
| "line_doy (LineA _ d _ _ _ _) = Some d"
| "line_doy (LineB d _ _ _) = Some d"

section \<open>The series driver\<close>

text \<open>
  The loop of lines 178 to 188 over the rows of the frame, with the flag and the
  cumulative thermal time carried from row to row. It returns the lines it has written
  and the exception that stopped it, if any.
\<close>

fun tt_loop :: "bool \<Rightarrow> float64 \<Rightarrow> day list \<Rightarrow> int \<Rightarrow> float64 \<Rightarrow> error option \<times> line list" where
  "tt_loop all_days latitude [] gs tt = (None, [])"
| "tt_loop all_days latitude (r # rs) gs tt =
     (case (if all_days then (case tma r of None \<Rightarrow> Inl KeyError | Some m \<Rightarrow> Inr m)
            else Inr (tavg r)) of
        Inl err \<Rightarrow> (Some err, [])
      | Inr tmp \<Rightarrow>
          (case cum_thermal_time latitude (doy r) tmp (tavg r) gs tt of
             (gs', tt') \<Rightarrow>
               (case write_tt_line all_days r tt' gs' of
                  Inl err \<Rightarrow> (Some err, [])
                | Inr l \<Rightarrow>
                    (case tt_loop all_days latitude rs gs' tt' of
                       (err, ls) \<Rightarrow> (err, l # ls)))))"

section \<open>The run\<close>

text \<open>
  What a run changes: the lines printed, the input files opened, whether the directory
  \<^verbatim>\<open>thermal_time\<close> exists, and the output files with their lines. Failures of the
  operating system on the output side (creating the directory, opening the output file)
  are not modelled.
\<close>

record world =
  stdout :: "string list"
  opened :: "string list"
  dir_exists :: bool
  files :: "string \<Rightarrow> line list option"

text \<open>
  The command line after \<^verbatim>\<open>argparse\<close> has split it and converted the integers: an option
  that was not given is \<open>None\<close>.
\<close>

record cli =
  opt_path :: "string option"
  opt_extension :: "string option"
  opt_hlines :: "int option"
  opt_latline :: "int option"
  opt_window :: "int option"
  opt_all_days :: bool

definition parse_arguments :: "cli \<Rightarrow> error + string \<times> string \<times> int \<times> int \<times> int \<times> bool" where
  "parse_arguments c =
     (case (opt_path c, opt_extension c, opt_hlines c, opt_latline c) of
        (Some path, Some extension, Some hlines, Some latline) \<Rightarrow>
          Inr (path, extension, hlines, latline,
               (case opt_window c of None \<Rightarrow> 14 | Some w \<Rightarrow> w), opt_all_days c)
      | _ \<Rightarrow> Inl SystemExit)"

definition endswith :: "string \<Rightarrow> string \<Rightarrow> bool" where
  "endswith s t = (length t \<le> length s \<and> drop (length s - length t) s = t)"

definition path_join :: "string \<Rightarrow> string \<Rightarrow> string" where
  "path_join path file =
     (if path = [] then file
      else if last path = CHR ''/'' then path @ file
      else path @ ''/'' @ file)"

text \<open>The slice \<^verbatim>\<open>file[0:-len(extension)]\<close>; it is empty when the extension is.\<close>

definition output_name :: "string \<Rightarrow> string \<Rightarrow> string" where
  "output_name file extension =
     ''thermal_time'' @ ''/''
       @ (if extension = [] then [] else take (length file - length extension) file)
       @ ''tt.txt''"

text \<open>One turn of the loop of \<^verbatim>\<open>main\<close> for a file of the right extension (lines 150 to 188).\<close>

definition main_file ::
  "string \<times> string \<times> int \<times> int \<times> int \<times> bool \<Rightarrow> env \<Rightarrow> string \<Rightarrow> world \<Rightarrow> error option \<times> world" where
  "main_file args e file w =
     (case args of (path, extension, hlines, latline, window, all_days) \<Rightarrow>
        (let w1 = w\<lparr>stdout := stdout w @ [''Processing '' @ file @ ''...'']\<rparr>;
             w2 = w1\<lparr>opened := opened w1 @ [path_join path file]\<rparr>
         in case read_weather e (path_join path file) hlines latline of
              Inl err \<Rightarrow> (Some err, w2)
            | Inr (latitude, df) \<Rightarrow>
                (case main_frame all_days window df of
                   Inl err \<Rightarrow> (Some err, w2)
                 | Inr df' \<Rightarrow>
                     (case tt_loop all_days latitude df' 0 (Num 0) of
                        (err, ls) \<Rightarrow>
                          (err, w2\<lparr>dir_exists := True,
                                   files := (files w2)(output_name file extension \<mapsto>
                                              write_header_line all_days window # ls)\<rparr>)))))"

fun main_files ::
  "string \<times> string \<times> int \<times> int \<times> int \<times> bool \<Rightarrow> env \<Rightarrow> string list \<Rightarrow> world \<Rightarrow> error option \<times> world" where
  "main_files args e [] w = (None, w)"
| "main_files args e (file # rest) w =
     (if \<not> endswith file (''.'' @ fst (snd args)) then main_files args e rest w
      else (case main_file args e file w of
              (Some err, w') \<Rightarrow> (Some err, w')
            | (None, w') \<Rightarrow> main_files args e rest w'))"

definition main :: "cli \<Rightarrow> env \<Rightarrow> world \<Rightarrow> error option \<times> world" where
  "main c e w =
     (case parse_arguments c of
        Inl err \<Rightarrow> (Some err, w)
      | Inr args \<Rightarrow>
          (case listdir e (fst args) of
             Inl err \<Rightarrow> (Some err, w)
           | Inr names \<Rightarrow> main_files args e names w))"

text \<open>
  The season gate with the two conditional assignments in the other order, the fall
  assignment first: the reading of the design note that the order of the two does not
  matter. It is compared with the order of the source below.
\<close>

definition gate_fall_first :: "float64 \<Rightarrow> int \<Rightarrow> float64 \<Rightarrow> int \<Rightarrow> int" where
  "gate_fall_first latitude d tmp gs =
     (if fge latitude (Num 0)
      then (let g = (if d \<ge> 245 \<and> flt tmp T_THLD then 0 else gs)
            in (if d < 152 \<and> fge tmp T_THLD then 1 else g))
      else gs)"

section \<open>A small run\<close>

text \<open>
  The inputs of the runs that the theorems below evaluate: a directory \<^verbatim>\<open>in\<close> that holds
  the one file \<^verbatim>\<open>a.weather\<close>, of a station at latitude 45 with the given rows (year, day
  of the year, tmax, tmin); the command line \<^verbatim>\<open>-p in -e weather -n 4 -l 1\<close> with or
  without \<^verbatim>\<open>-w\<close> and \<^verbatim>\<open>-a\<close>; and a world in which nothing has been printed, read or
  written yet.
\<close>

definition example_env :: "(int \<times> int \<times> float64 \<times> float64) list \<Rightarrow> env" where
  "example_env rows =
     \<lparr>listdir = (\<lambda>p. Inr [''a.weather'']), contents = (\<lambda>f h l. Inr (Num 45, rows))\<rparr>"

definition example_cli :: "int option \<Rightarrow> bool \<Rightarrow> cli" where
  "example_cli w a =
     \<lparr>opt_path = Some ''in'', opt_extension = Some ''weather'', opt_hlines = Some 4,
      opt_latline = Some 1, opt_window = w, opt_all_days = a\<rparr>"

definition example_world :: world where
  "example_world = \<lparr>stdout = [], opened = [], dir_exists = False, files = (\<lambda>n. None)\<rparr>"

section \<open>Properties of the response\<close>

lemma flt_Num_left: "flt (Num b) t = (t = PInf \<or> (\<exists>x. t = Num x \<and> b < x))"
  by (cases t) auto

lemma flt_Num_right: "flt t (Num b) = (t = NInf \<or> (\<exists>x. t = Num x \<and> x < b))"
  by (cases t) auto

lemma fle_Num_left: "fle (Num b) t = (t = PInf \<or> (\<exists>x. t = Num x \<and> b \<le> x))"
  by (cases t) auto

lemma fle_Num_right: "fle t (Num b) = (t = NInf \<or> (\<exists>x. t = Num x \<and> x \<le> b))"
  by (cases t) auto

text \<open>
  C1. For a calibration of numbers with base < optimum < max and any temperature
  (NaN and the infinities included): the response is 0.0 when temp <= base or
  temp >= max; it is temp - base when base < temp < optimum; it is
  (max - temp) / (max - optimum) * (optimum - base) when optimum <= temp < max; and at
  temp = optimum it is optimum - base.
\<close>

theorem thermal_time_piecewise:
  assumes "b < p" and "p < m"
  shows "(fle tmp (Num b) \<or> fge tmp (Num m) \<longrightarrow>
            thermal_time (Num b) (Num p) (Num m) tmp = Num 0)
       \<and> (flt (Num b) tmp \<and> flt tmp (Num p) \<longrightarrow>
            thermal_time (Num b) (Num p) (Num m) tmp = fsub tmp (Num b)
            \<and> (\<exists>t. tmp = Num t \<and> fsub tmp (Num b) = Num (t - b)))
       \<and> (fle (Num p) tmp \<and> flt tmp (Num m) \<longrightarrow>
            thermal_time (Num b) (Num p) (Num m) tmp
              = fmul (fdiv (fsub (Num m) tmp) (fsub (Num m) (Num p))) (fsub (Num p) (Num b))
            \<and> (\<exists>t. tmp = Num t \<and>
                 thermal_time (Num b) (Num p) (Num m) tmp
                   = Num ((m - t) / (m - p) * (p - b))))
       \<and> thermal_time (Num b) (Num p) (Num m) (Num p) = Num (p - b)"
proof (intro conjI impI)
  assume "fle tmp (Num b) \<or> fge tmp (Num m)"
  then show "thermal_time (Num b) (Num p) (Num m) tmp = Num 0"
    by (simp add: thermal_time_def)
next
  assume h: "flt (Num b) tmp \<and> flt tmp (Num p)"
  then obtain t where t: "tmp = Num t" "b < t" "t < p"
    by (auto simp: flt_Num_left flt_Num_right)
  with assms show "thermal_time (Num b) (Num p) (Num m) tmp = fsub tmp (Num b)"
    by (simp add: thermal_time_def fge_def)
  from t show "\<exists>t. tmp = Num t \<and> fsub tmp (Num b) = Num (t - b)"
    by (simp add: fsub_def)
next
  assume h: "fle (Num p) tmp \<and> flt tmp (Num m)"
  then obtain t where t: "tmp = Num t" "p \<le> t" "t < m"
    by (auto simp: fle_Num_left flt_Num_right)
  with assms show "thermal_time (Num b) (Num p) (Num m) tmp
      = fmul (fdiv (fsub (Num m) tmp) (fsub (Num m) (Num p))) (fsub (Num p) (Num b))"
    by (simp add: thermal_time_def fge_def)
  from t assms show "\<exists>t. tmp = Num t \<and>
      thermal_time (Num b) (Num p) (Num m) tmp = Num ((m - t) / (m - p) * (p - b))"
    by (simp add: thermal_time_def fge_def fsub_def)
next
  from assms show "thermal_time (Num b) (Num p) (Num m) (Num p) = Num (p - b)"
    by (simp add: thermal_time_def fge_def fsub_def)
qed

theorem thermal_time_piecewise_witness:
  "thermal_time (Num 6) (Num 30) (Num 40) (Num 5) = Num 0
   \<and> thermal_time (Num 6) (Num 30) (Num 40) (Num 40) = Num 0
   \<and> thermal_time (Num 6) (Num 30) (Num 40) NaN = NaN
   \<and> thermal_time (Num 6) (Num 30) (Num 40) (Num 20) = Num 14
   \<and> thermal_time (Num 6) (Num 30) (Num 40) (Num 35) = Num 12
   \<and> thermal_time (Num 6) (Num 30) (Num 40) (Num 30) = Num 24"
proof -
  have c: "(6::real) < 30" "(30::real) < 40" by simp_all
  have "thermal_time (Num 6) (Num 30) (Num 40) (Num 5) = Num 0"
    using thermal_time_piecewise [OF c, of "Num 5"] by simp
  moreover have "thermal_time (Num 6) (Num 30) (Num 40) (Num 40) = Num 0"
    using thermal_time_piecewise [OF c, of "Num 40"] by (simp add: fge_def)
  moreover have "thermal_time (Num 6) (Num 30) (Num 40) NaN = NaN"
    by (simp add: thermal_time_def fge_def fsub_def)
  moreover have "thermal_time (Num 6) (Num 30) (Num 40) (Num 20) = Num 14"
    using thermal_time_piecewise [OF c, of "Num 20"] by (simp add: fsub_def)
  moreover have "thermal_time (Num 6) (Num 30) (Num 40) (Num 35) = Num 12"
    using thermal_time_piecewise [OF c, of "Num 35"] by (simp add: fsub_def)
  moreover have "thermal_time (Num 6) (Num 30) (Num 40) (Num 30) = Num 24"
    using thermal_time_piecewise [OF c, of "Num 30"] by (simp add: fsub_def fge_def)
  ultimately show ?thesis by simp
qed

section \<open>Properties of the accumulator step\<close>

text \<open>
  C2. For a latitude that is at least 0 and any prior flag, day of the year and reference
  temperature, one step yields the flag GROWING when the day is before 152 and the
  reference temperature is at least the threshold, DORMANT when the day is 245 or later
  and the reference temperature is below the threshold, and the prior flag otherwise.
\<close>

theorem season_gate_north:
  assumes "fge lat (Num 0)"
  shows "fst (cum_thermal_time lat d tr ta gs tt0) =
           (if d < 152 \<and> fge tr T_THLD then GROWING
            else if d \<ge> 245 \<and> flt tr T_THLD then DORMANT
            else gs)"
  using assms by (simp add: cum_thermal_time_def GROWING_def DORMANT_def Let_def)

theorem season_gate_north_witness:
  "fge (Num 45) (Num 0)
   \<and> fst (cum_thermal_time (Num 45) 100 (Num 12) (Num 12) DORMANT (Num 0)) = GROWING
   \<and> fst (cum_thermal_time (Num 45) 250 (Num 8) (Num 8) GROWING (Num 500)) = DORMANT
   \<and> fst (cum_thermal_time (Num 45) 200 (Num 3) (Num 3) GROWING (Num 500)) = GROWING
   \<and> fst (cum_thermal_time (Num 45) 200 (Num 30) (Num 30) DORMANT (Num 0)) = DORMANT"
proof -
  have h: "fge (Num 45) (Num 0)" by (simp add: fge_def)
  show ?thesis
    using h season_gate_north [OF h, of 100 "Num 12" "Num 12" DORMANT "Num 0"]
      season_gate_north [OF h, of 250 "Num 8" "Num 8" GROWING "Num 500"]
      season_gate_north [OF h, of 200 "Num 3" "Num 3" GROWING "Num 500"]
      season_gate_north [OF h, of 200 "Num 30" "Num 30" DORMANT "Num 0"]
    by (simp add: fge_def T_THLD_def)
qed

text \<open>
  C3. In every step the new flag is the outcome of the season gate on the latitude, the
  day of the year, the reference temperature and the prior flag, and of nothing else;
  the new cumulative value is the response to the averaged temperature under the
  calibration of the program plus the prior cumulative value when the new flag is
  GROWING, and 0.0 otherwise.
\<close>

theorem cum_thermal_time_step:
  "fst (cum_thermal_time lat d tr ta gs tt0) =
      (if fge lat (Num 0)
       then (if d \<ge> 245 \<and> flt tr T_THLD then DORMANT
             else if d < 152 \<and> fge tr T_THLD then GROWING else gs)
       else gs)
   \<and> fst (cum_thermal_time lat d tr ta gs tt0) = fst (cum_thermal_time lat d tr ta' gs tt0')
   \<and> snd (cum_thermal_time lat d tr ta gs tt0) =
      (if fst (cum_thermal_time lat d tr ta gs tt0) = GROWING
       then fadd (thermal_time T_BASE T_OPT T_MAX ta) tt0
       else Num 0)"
  by (simp add: cum_thermal_time_def GROWING_def DORMANT_def Let_def)

theorem cum_thermal_time_step_witness:
  "cum_thermal_time (Num 45) 100 (Num 12) (Num 16) DORMANT (Num 0) = (GROWING, Num 10)
   \<and> cum_thermal_time (Num 45) 120 (Num 9) (Num 20) GROWING (Num 10) = (GROWING, Num 24)
   \<and> cum_thermal_time (Num 45) 250 (Num 8) (Num 20) GROWING (Num 24) = (DORMANT, Num 0)"
  using cum_thermal_time_step [of "Num 45" 100 "Num 12" "Num 16" DORMANT "Num 0"]
  by (simp add: cum_thermal_time_def thermal_time_def fge_def fsub_def
      T_THLD_def T_BASE_def T_OPT_def T_MAX_def GROWING_def DORMANT_def Let_def)

text \<open>
  With optimum = max, a temperature that is not NaN never reaches the third branch: the
  first branch takes it when it is at least max, and one of the first two when it is
  below.
\<close>

lemma number_misses_third_branch:
  assumes "tmp \<noteq> NaN"
  shows "(fle tmp (Num b) \<or> fge tmp (Num m)) \<or> flt tmp (Num m)"
  using assms by (cases tmp) (auto simp: fge_def)

text \<open>So under the calibration of the program the response to a number is a single ramp.\<close>

lemma response_of_program:
  "thermal_time T_BASE T_OPT T_MAX (Num t) = (if 6 < t \<and> t < 100 then Num (t - 6) else Num 0)"
  by (simp add: thermal_time_def fge_def fsub_def T_BASE_def T_OPT_def T_MAX_def)

text \<open>
  The two evaluations of the response agree wherever the one on Python floats returns,
  and with optimum < max it always returns: the divisor max - optimum is not zero.
\<close>

lemma thermal_time_pyfloat_value:
  "thermal_time_pyfloat a p m tmp = Inr v \<Longrightarrow> v = thermal_time a p m tmp"
  by (auto simp: thermal_time_pyfloat_def thermal_time_def py_div_def
      split: if_splits sum.splits)

lemma thermal_time_pyfloat_regular:
  assumes "p < m"
  shows "thermal_time_pyfloat (Num b) (Num p) (Num m) tmp
           = Inr (thermal_time (Num b) (Num p) (Num m) tmp)"
  using assms
  by (simp add: thermal_time_pyfloat_def thermal_time_def py_div_def fsub_def)

text \<open>
  C6. With optimum = max, as in the calibration of the program (base 6, optimum 100,
  max 100), and with no special case for it in the source, there is an input temperature
  for which the response evaluates the division of the third branch with the divisor
  max - optimum = 0: on Python floats the evaluation ends in \<open>ZeroDivisionError\<close>. That
  temperature is NaN, which is what a missing value of the input becomes, and it is the
  only one: the division by zero is raised exactly when the temperature is NaN. With
  optimum < max nothing is raised for any temperature. On \<^verbatim>\<open>numpy.float64\<close>, as in a
  run of the program, the same division of NaN by 0 raises nothing and the response is
  NaN.
\<close>

theorem thermal_time_degenerate:
  "thermal_time_pyfloat (Num b) (Num m) (Num m) NaN = Inl ZeroDivisionError
   \<and> (thermal_time_pyfloat (Num b) (Num m) (Num m) tmp = Inl ZeroDivisionError) = (tmp = NaN)
   \<and> (\<forall>p. p < m \<longrightarrow>
          thermal_time_pyfloat (Num b) (Num p) (Num m) tmp
            = Inr (thermal_time (Num b) (Num p) (Num m) tmp))
   \<and> thermal_time_pyfloat T_BASE T_OPT T_MAX NaN = Inl ZeroDivisionError
   \<and> T_OPT = T_MAX
   \<and> thermal_time (Num b) (Num m) (Num m) NaN
       = fmul (fdiv (fsub (Num m) NaN) (fsub (Num m) (Num m))) (fsub (Num m) (Num b))
   \<and> fsub (Num m) (Num m) = Num 0
   \<and> thermal_time (Num b) (Num m) (Num m) NaN = NaN"
proof (intro conjI)
  show "\<forall>p. p < m \<longrightarrow>
          thermal_time_pyfloat (Num b) (Num p) (Num m) tmp
            = Inr (thermal_time (Num b) (Num p) (Num m) tmp)"
    by (simp add: thermal_time_pyfloat_regular)
  show nan: "thermal_time_pyfloat (Num b) (Num m) (Num m) NaN = Inl ZeroDivisionError"
    by (simp add: thermal_time_pyfloat_def py_div_def fge_def fsub_def)
  show "(thermal_time_pyfloat (Num b) (Num m) (Num m) tmp = Inl ZeroDivisionError) = (tmp = NaN)"
  proof (cases tmp)
    case (Num x)
    then show ?thesis
      by (simp add: thermal_time_pyfloat_def fge_def)
  next
    case PInf
    then show ?thesis
      by (simp add: thermal_time_pyfloat_def fge_def)
  next
    case NInf
    then show ?thesis
      by (simp add: thermal_time_pyfloat_def fge_def)
  next
    case NaN
    with nan show ?thesis by simp
  qed
  show "thermal_time_pyfloat T_BASE T_OPT T_MAX NaN = Inl ZeroDivisionError"
    by (simp add: thermal_time_pyfloat_def py_div_def fge_def fsub_def
        T_BASE_def T_OPT_def T_MAX_def)
  show "T_OPT = T_MAX"
    by (simp add: T_OPT_def T_MAX_def)
  show "thermal_time (Num b) (Num m) (Num m) NaN
       = fmul (fdiv (fsub (Num m) NaN) (fsub (Num m) (Num m))) (fsub (Num m) (Num b))"
    by (simp add: thermal_time_def fge_def)
  show "fsub (Num m) (Num m) = Num 0"
    by (simp add: fsub_def)
  show "thermal_time (Num b) (Num m) (Num m) NaN = NaN"
    by (simp add: thermal_time_def fge_def fsub_def)
qed

theorem thermal_time_degenerate_witness:
  "thermal_time_pyfloat (Num 6) (Num 100) (Num 100) NaN = Inl ZeroDivisionError
   \<and> thermal_time_pyfloat (Num 6) (Num 100) (Num 100) (Num 100) = Inr (Num 0)
   \<and> thermal_time_pyfloat (Num 6) (Num 100) (Num 100) (Num 99) = Inr (Num 93)
   \<and> thermal_time_pyfloat (Num 6) (Num 30) (Num 100) NaN = Inr NaN
   \<and> thermal_time (Num 6) (Num 100) (Num 100) NaN = NaN
   \<and> cum_thermal_time (Num 45) 100 (Num 12) NaN GROWING (Num 5) = (GROWING, NaN)"
  using thermal_time_degenerate [of 6 100 NaN]
  by (simp add: thermal_time_pyfloat_def thermal_time_def py_div_def cum_thermal_time_def
      fge_def fsub_def T_THLD_def T_BASE_def T_OPT_def T_MAX_def GROWING_def Let_def)

text \<open>
  C7. The spring condition (day before 152 and reference temperature at least the
  threshold) and the fall condition (day 245 or later and reference temperature below the
  threshold) never hold on the same day, and the two conditional assignments give the
  same flag in either order, for every latitude.
\<close>

theorem gate_conditions_exclusive:
  "\<not> ((d < 152 \<and> fge tr T_THLD) \<and> (d \<ge> 245 \<and> flt tr T_THLD))
   \<and> fst (cum_thermal_time lat d tr ta gs tt0) = gate_fall_first lat d tr gs"
  by (auto simp: cum_thermal_time_def gate_fall_first_def Let_def)

theorem gate_conditions_exclusive_witness:
  "gate_fall_first (Num 45) 100 (Num 12) 0 = 1
   \<and> gate_fall_first (Num 45) 250 (Num 8) 1 = 0
   \<and> gate_fall_first (Num (- 30)) 100 (Num 12) 0 = 0
   \<and> fst (cum_thermal_time (Num 45) 100 (Num 12) (Num 12) 0 (Num 0)) = 1"
  using gate_conditions_exclusive [of 100 "Num 12" "Num 45" "Num 12" 0 "Num 0"]
  by (simp add: gate_fall_first_def fge_def T_THLD_def)

section \<open>Properties of the series driver\<close>

lemma cum_flag_cases:
  "fst (cum_thermal_time lat d tr ta gs tt0) = gs
   \<or> fst (cum_thermal_time lat d tr ta gs tt0) = 0
   \<or> fst (cum_thermal_time lat d tr ta gs tt0) = 1"
  by (simp add: cum_thermal_time_def Let_def)

lemma cum_reset:
  "cum_thermal_time lat d tr ta gs tt0 = (g, c) \<Longrightarrow> g \<noteq> 1 \<Longrightarrow> c = Num 0"
  by (auto simp: cum_thermal_time_def Let_def split: if_splits)

lemma write_tt_line_state:
  "write_tt_line ad r c g = Inr l \<Longrightarrow> line_state l = Some (g, c)"
  by (auto simp: write_tt_line_def split: if_splits option.splits)

lemma write_tt_line_doy:
  "write_tt_line ad r c g = Inr l \<Longrightarrow> line_doy l = Some (doy r)"
  by (auto simp: write_tt_line_def split: if_splits option.splits)

text \<open>
  Started with a flag that is 0 or 1, the loop writes only lines whose flag is 0 or 1,
  and a line whose flag is 0 has the cumulative value 0.0.
\<close>

lemma tt_loop_reset:
  assumes "gs = 0 \<or> gs = 1"
  shows "\<forall>l \<in> set (snd (tt_loop ad lat rows gs tt)).
           \<exists>g c. line_state l = Some (g, c) \<and> (g = 0 \<or> g = 1) \<and> (g = 0 \<longrightarrow> c = Num 0)"
  using assms
proof (induction rows arbitrary: gs tt)
  case Nil
  then show ?case by simp
next
  case (Cons r rs)
  show ?case
  proof (cases "if ad then (case tma r of None \<Rightarrow> Inl KeyError | Some m \<Rightarrow> Inr m) else Inr (tavg r)")
    case (Inl e)
    then show ?thesis by simp
  next
    case (Inr tmp)
    obtain g c where st: "cum_thermal_time lat (doy r) tmp (tavg r) gs tt = (g, c)"
      by (cases "cum_thermal_time lat (doy r) tmp (tavg r) gs tt")
    have g01: "g = 0 \<or> g = 1"
      using cum_flag_cases [of lat "doy r" tmp "tavg r" gs tt] st Cons.prems by auto
    have c0: "g = 0 \<longrightarrow> c = Num 0"
      using cum_reset [OF st] by simp
    show ?thesis
    proof (cases "write_tt_line ad r c g")
      case (Inl e)
      with Inr st show ?thesis by simp
    next
      case wr: (Inr l)
      obtain err ls where rec: "tt_loop ad lat rs g c = (err, ls)"
        by (cases "tt_loop ad lat rs g c")
      have ih: "\<forall>l \<in> set ls. \<exists>g c. line_state l = Some (g, c) \<and> (g = 0 \<or> g = 1) \<and> (g = 0 \<longrightarrow> c = Num 0)"
        using Cons.IH [OF g01, of c] rec by simp
      have hd: "line_state l = Some (g, c)"
        using write_tt_line_state [OF wr] .
      from Inr st wr rec ih hd g01 c0 show ?thesis by simp
    qed
  qed
qed

text \<open>
  When every row has the column that the mode reads, the loop raises nothing and
  writes one line for each row, in the order of the rows.
\<close>

lemma tt_loop_complete:
  assumes "ad \<longrightarrow> (\<forall>r \<in> set rows. tma r \<noteq> None)"
  shows "fst (tt_loop ad lat rows gs tt) = None
       \<and> map line_doy (snd (tt_loop ad lat rows gs tt)) = map (\<lambda>r. Some (doy r)) rows"
  using assms
proof (induction rows arbitrary: gs tt)
  case Nil
  then show ?case by simp
next
  case (Cons r rs)
  have tl: "ad \<longrightarrow> (\<forall>r \<in> set rs. tma r \<noteq> None)"
    using Cons.prems by simp
  have "\<exists>tmp. (if ad then (case tma r of None \<Rightarrow> Inl KeyError | Some m \<Rightarrow> Inr m)
                      else Inr (tavg r)) = Inr tmp"
    using Cons.prems by (auto split: option.splits)
  then obtain tmp where tmp: "(if ad then (case tma r of None \<Rightarrow> Inl KeyError | Some m \<Rightarrow> Inr m)
                               else Inr (tavg r)) = Inr tmp"
    by blast
  obtain g c where st: "cum_thermal_time lat (doy r) tmp (tavg r) gs tt = (g, c)"
    by (cases "cum_thermal_time lat (doy r) tmp (tavg r) gs tt")
  have "\<exists>l. write_tt_line ad r c g = Inr l"
    using Cons.prems by (auto simp: write_tt_line_def split: option.splits)
  then obtain l where wr: "write_tt_line ad r c g = Inr l"
    by blast
  obtain err ls where rec: "tt_loop ad lat rs g c = (err, ls)"
    by (cases "tt_loop ad lat rs g c")
  from Cons.IH [OF tl, of g c] rec
  have ih: "err = None" "map line_doy ls = map (\<lambda>r. Some (doy r)) rs" by simp_all
  have "tt_loop ad lat (r # rs) gs tt = (err, l # ls)"
    using tmp st wr rec by simp
  then show ?case
    using ih write_tt_line_doy [OF wr] by simp
qed

text \<open>
  C4. Whatever the rows, the mode and the latitude, every line that the loop writes when
  it starts from the flag DORMANT and the cumulative value 0.0 carries a flag that is
  DORMANT or GROWING, and a line whose flag is DORMANT (false) carries the cumulative
  value 0.0 exactly, whatever was accumulated on the rows before.
\<close>

theorem reset_invariant:
  "\<forall>l \<in> set (snd (tt_loop ad lat rows DORMANT (Num 0))).
     \<exists>g c. line_state l = Some (g, c) \<and> (g = DORMANT \<or> g = GROWING)
           \<and> (g = DORMANT \<longrightarrow> c = Num 0)"
  using tt_loop_reset [of 0 ad lat rows "Num 0"] by (simp add: DORMANT_def GROWING_def)

theorem reset_invariant_witness:
  "tt_loop False (Num 45)
     [\<lparr>year = Num 2001, doy = 100, tmax = Num 20, tmin = Num 12, tavg = Num 16, tma = None\<rparr>,
      \<lparr>year = Num 2001, doy = 120, tmax = Num 25, tmin = Num 15, tavg = Num 20, tma = None\<rparr>,
      \<lparr>year = Num 2001, doy = 250, tmax = Num 10, tmin = Num 6, tavg = Num 8, tma = None\<rparr>,
      \<lparr>year = Num 2001, doy = 251, tmax = Num 25, tmin = Num 15, tavg = Num 20, tma = None\<rparr>]
     DORMANT (Num 0)
   = (None, [LineB 100 (Num 16) (Num 10) 1, LineB 120 (Num 20) (Num 24) 1,
             LineB 250 (Num 8) (Num 0) 0, LineB 251 (Num 20) (Num 0) 0])"
  using reset_invariant [of False "Num 45"
      "[\<lparr>year = Num 2001, doy = 100, tmax = Num 20, tmin = Num 12, tavg = Num 16, tma = None\<rparr>,
        \<lparr>year = Num 2001, doy = 120, tmax = Num 25, tmin = Num 15, tavg = Num 20, tma = None\<rparr>,
        \<lparr>year = Num 2001, doy = 250, tmax = Num 10, tmin = Num 6, tavg = Num 8, tma = None\<rparr>,
        \<lparr>year = Num 2001, doy = 251, tmax = Num 25, tmin = Num 15, tavg = Num 20, tma = None\<rparr>]"]
  by (simp add: cum_thermal_time_def thermal_time_def write_tt_line_def fge_def fsub_def
      T_THLD_def T_BASE_def T_OPT_def T_MAX_def DORMANT_def Let_def)

lemma south_not_north: "flt lat (Num 0) \<Longrightarrow> \<not> fge lat (Num 0)"
  by (cases lat) (auto simp: fge_def)

lemma cum_south:
  "flt lat (Num 0) \<Longrightarrow>
   cum_thermal_time lat d tr ta gs tt0
     = (gs, if gs = 1 then fadd (thermal_time T_BASE T_OPT T_MAX ta) tt0 else Num 0)"
  by (simp add: cum_thermal_time_def Let_def south_not_north)

lemma tt_loop_south:
  assumes "flt lat (Num 0)"
  shows "\<forall>l \<in> set (snd (tt_loop ad lat rows 0 (Num 0))). line_state l = Some (0, Num 0)"
proof (induction rows)
  case Nil
  then show ?case by simp
next
  case (Cons r rs)
  obtain err ls where rec: "tt_loop ad lat rs 0 (Num 0) = (err, ls)"
    by (cases "tt_loop ad lat rs 0 (Num 0)")
  with Cons.IH have ih: "\<forall>l \<in> set ls. line_state l = Some (0, Num 0)" by simp
  show ?case
    using rec ih
    by (auto simp: cum_south [OF assms] split: sum.splits option.splits
        dest: write_tt_line_state)
qed

text \<open>
  C5. For a latitude below 0 no step changes the flag; a run of the loop from the flag
  DORMANT and the cumulative value 0.0 writes only lines with the flag DORMANT and the
  cumulative value 0.0, whatever the days and the temperatures; and when the rows have
  the column that the mode reads, it writes one such line for every row.
\<close>

theorem southern_passthrough:
  assumes "flt lat (Num 0)"
  shows "fst (cum_thermal_time lat d tr ta gs tt0) = gs
       \<and> (\<forall>l \<in> set (snd (tt_loop ad lat rows DORMANT (Num 0))).
            line_state l = Some (DORMANT, Num 0))
       \<and> ((ad \<longrightarrow> (\<forall>r \<in> set rows. tma r \<noteq> None)) \<longrightarrow>
            fst (tt_loop ad lat rows DORMANT (Num 0)) = None
            \<and> length (snd (tt_loop ad lat rows DORMANT (Num 0))) = length rows)"
proof (intro conjI impI)
  show "fst (cum_thermal_time lat d tr ta gs tt0) = gs"
    by (simp add: cum_south [OF assms])
  show "\<forall>l \<in> set (snd (tt_loop ad lat rows DORMANT (Num 0))).
          line_state l = Some (DORMANT, Num 0)"
    using tt_loop_south [OF assms, of ad rows] by (simp add: DORMANT_def)
next
  assume h: "ad \<longrightarrow> (\<forall>r \<in> set rows. tma r \<noteq> None)"
  from tt_loop_complete [OF h, of lat DORMANT "Num 0"]
  show "fst (tt_loop ad lat rows DORMANT (Num 0)) = None" by simp
  from tt_loop_complete [OF h, of lat DORMANT "Num 0"]
  have "length (map line_doy (snd (tt_loop ad lat rows DORMANT (Num 0))))
          = length (map (\<lambda>r. Some (doy r)) rows)"
    by simp
  then show "length (snd (tt_loop ad lat rows DORMANT (Num 0))) = length rows"
    by simp
qed

theorem southern_passthrough_witness:
  "flt (Num (- 30)) (Num 0)
   \<and> fst (cum_thermal_time (Num (- 30)) 100 (Num 12) (Num 16) DORMANT (Num 0)) = DORMANT
   \<and> tt_loop True (Num (- 30))
       [\<lparr>year = Num 2001, doy = 100, tmax = Num 20, tmin = Num 12, tavg = Num 16, tma = Some (Num 15)\<rparr>,
        \<lparr>year = Num 2001, doy = 250, tmax = Num 10, tmin = Num 6, tavg = Num 8, tma = Some (Num 9)\<rparr>]
       DORMANT (Num 0)
     = (None, [LineA (Num 2001) 100 (Num 16) (Num 15) (Num 0) 0,
               LineA (Num 2001) 250 (Num 8) (Num 9) (Num 0) 0])"
proof -
  have h: "flt (Num (- 30)) (Num 0)" by simp
  show ?thesis
    using h southern_passthrough [OF h, of 100 "Num 12" "Num 16" DORMANT "Num 0" True
        "[\<lparr>year = Num 2001, doy = 100, tmax = Num 20, tmin = Num 12, tavg = Num 16, tma = Some (Num 15)\<rparr>,
          \<lparr>year = Num 2001, doy = 250, tmax = Num 10, tmin = Num 6, tavg = Num 8, tma = Some (Num 9)\<rparr>]"]
    by (simp add: cum_thermal_time_def write_tt_line_def fge_def DORMANT_def Let_def)
qed

section \<open>Properties of the run\<close>

lemma main_frame_window:
  "window \<le> 0 \<Longrightarrow> main_frame True window df = Inl ValueError"
  by (simp add: main_frame_def rolling_mean_def)

lemma groupby_doys: "map doy (groupby_doy_mean df) = sort (remdups (map doy df))"
  by (simp add: groupby_doy_mean_def Let_def comp_def)

text \<open>Without \<^verbatim>\<open>all_days\<close> the frame is accepted exactly when some row is of day 366.\<close>

lemma main_frame_per_doy:
  "main_frame False window df =
     (if 366 \<in> doy ` set df
      then Inr (filter (\<lambda>r. doy r \<noteq> 366) (groupby_doy_mean df))
      else Inl KeyError)"
proof -
  have "set (map doy (groupby_doy_mean df)) = doy ` set df"
    by (simp only: groupby_doys set_sort set_remdups set_map)
  then show ?thesis
    by (simp add: main_frame_def drop_doy_def)
qed

text \<open>\<^verbatim>\<open>read_weather\<close> returns no table without rows.\<close>

lemma read_weather_rows:
  "read_weather e file hl ll = Inr (lat, df) \<Longrightarrow> df \<noteq> []"
  by (auto simp: read_weather_def split: sum.splits if_splits)

text \<open>
  C8, as the claim states it, fails: for a file without data rows the run does not
  succeed and leaves no output file, in either mode. \<^verbatim>\<open>read_weather\<close> raises
  \<open>EmptyDataError\<close> and \<^verbatim>\<open>main\<close> ends before the output directory and the output file
  are created, so not even the header line is written.
\<close>

theorem zero_rows_counterexample:
  "main (example_cli None False) (example_env []) example_world
     = (Some EmptyDataError,
        \<lparr>stdout = [''Processing a.weather...''], opened = [''in/a.weather''],
         dir_exists = False, files = (\<lambda>n. None)\<rparr>)
   \<and> main (example_cli None True) (example_env []) example_world
     = (Some EmptyDataError,
        \<lparr>stdout = [''Processing a.weather...''], opened = [''in/a.weather''],
         dir_exists = False, files = (\<lambda>n. None)\<rparr>)"
  by (simp add: example_cli_def example_env_def example_world_def
      main_def parse_arguments_def endswith_def main_file_def read_weather_def
      path_join_def Let_def)

text \<open>
  C8, amended. In both modes a file that holds no data rows is not processed:
  \<^verbatim>\<open>read_weather\<close> raises \<open>EmptyDataError\<close> for it, the turn of the loop for that file
  ends with that exception after the file was opened for reading, nothing else of the
  world changes (no output directory and no output file is created or written, so no
  header line either), and the run ends at that file. No file gives \<^verbatim>\<open>main\<close> a table
  with zero rows.
\<close>

theorem zero_rows_rejected:
  assumes "contents e (path_join path file) hl ll = Inr (lat, [])"
  shows "read_weather e (path_join path file) hl ll = Inl EmptyDataError
       \<and> main_file (path, ext, hl, ll, window, all_days) e file w =
           (Some EmptyDataError,
            w\<lparr>stdout := stdout w @ [''Processing '' @ file @ ''...''],
              opened := opened w @ [path_join path file]\<rparr>)
       \<and> (endswith file (''.'' @ ext) \<longrightarrow>
            main_files (path, ext, hl, ll, window, all_days) e (file # rest) w =
              (Some EmptyDataError,
               w\<lparr>stdout := stdout w @ [''Processing '' @ file @ ''...''],
                 opened := opened w @ [path_join path file]\<rparr>))
       \<and> (\<forall>e' file' hl' ll' lat'. read_weather e' file' hl' ll' \<noteq> Inr (lat', []))"
proof (intro conjI impI allI)
  show r: "read_weather e (path_join path file) hl ll = Inl EmptyDataError"
    using assms by (simp add: read_weather_def)
  show f: "main_file (path, ext, hl, ll, window, all_days) e file w =
           (Some EmptyDataError,
            w\<lparr>stdout := stdout w @ [''Processing '' @ file @ ''...''],
              opened := opened w @ [path_join path file]\<rparr>)"
    using r by (simp add: main_file_def Let_def)
  show "read_weather e' file' hl' ll' \<noteq> Inr (lat', [])" for e' file' hl' ll' lat'
    using read_weather_rows [of e' file' hl' ll' lat' "[]"] by blast
  assume "endswith file (''.'' @ ext)"
  then show "main_files (path, ext, hl, ll, window, all_days) e (file # rest) w =
              (Some EmptyDataError,
               w\<lparr>stdout := stdout w @ [''Processing '' @ file @ ''...''],
                 opened := opened w @ [path_join path file]\<rparr>)"
    by (simp add: f)
qed

theorem zero_rows_rejected_witness:
  "contents (example_env []) (path_join ''in'' ''a.weather'') 4 1 = Inr (Num 45, [])
   \<and> main_file (''in'', ''weather'', 4, 1, 14, True) (example_env []) ''a.weather'' example_world
       = (Some EmptyDataError,
          \<lparr>stdout = [''Processing a.weather...''], opened = [''in/a.weather''],
           dir_exists = False, files = (\<lambda>n. None)\<rparr>)
   \<and> main_file (''in'', ''weather'', 4, 1, 14, False) (example_env []) ''a.weather'' example_world
       = (Some EmptyDataError,
          \<lparr>stdout = [''Processing a.weather...''], opened = [''in/a.weather''],
           dir_exists = False, files = (\<lambda>n. None)\<rparr>)"
proof -
  have c: "contents (example_env []) (path_join ''in'' ''a.weather'') 4 1 = Inr (Num 45, [])"
    by (simp add: example_env_def)
  show ?thesis
    using c zero_rows_rejected [OF c, of "''weather''" 14 True example_world]
      zero_rows_rejected [OF c, of "''weather''" 14 False example_world]
    by (simp add: example_world_def path_join_def)
qed

text \<open>With \<^verbatim>\<open>all_days\<close> and a window that is not positive, every file fails after it is read.\<close>

lemma main_file_window_fails:
  assumes "window \<le> 0"
  shows "main_file (path, ext, hl, ll, window, True) e file w =
           (Some (case read_weather e (path_join path file) hl ll of
                    Inl err \<Rightarrow> err | Inr x \<Rightarrow> ValueError),
            w\<lparr>stdout := stdout w @ [''Processing '' @ file @ ''...''],
              opened := opened w @ [path_join path file]\<rparr>)"
  using assms
  by (auto simp: main_file_def main_frame_window Let_def split: sum.splits)

lemma main_files_window_fails:
  assumes "window \<le> 0"
  shows "main_files (path, ext, hl, ll, window, True) e names w =
           (case filter (\<lambda>f. endswith f (''.'' @ ext)) names of
              [] \<Rightarrow> (None, w)
            | f # fs \<Rightarrow> main_file (path, ext, hl, ll, window, True) e f w)"
proof (induction names)
  case Nil
  then show ?case by simp
next
  case (Cons f fs)
  then show ?case
    by (simp add: main_file_window_fails [OF assms])
qed

text \<open>Without \<^verbatim>\<open>all_days\<close> the window is never used.\<close>

lemma main_file_per_doy_window:
  "main_file (path, ext, hl, ll, w1, False) e file w
     = main_file (path, ext, hl, ll, w2, False) e file w"
proof -
  have a: "main_frame False w1 = main_frame False w2"
    by (rule ext) (simp add: main_frame_def)
  have b: "write_header_line False w1 = write_header_line False w2"
    by (simp add: write_header_line_def)
  show ?thesis
    by (simp only: main_file_def prod.case a b)
qed

lemma main_files_per_doy_window:
  "main_files (path, ext, hl, ll, w1, False) e names w
     = main_files (path, ext, hl, ll, w2, False) e names w"
proof (induction names arbitrary: w)
  case Nil
  then show ?case by simp
next
  case (Cons f fs)
  then show ?case
    by (simp add: main_file_per_doy_window [of path ext hl ll w1 e f w w2]
        split: prod.splits option.splits)
qed

text \<open>
  C9, as the claim states it, fails: with the window 0 nothing is rejected before the
  files are processed. Without \<^verbatim>\<open>all_days\<close> the run reads the input file and writes the
  output file; with \<^verbatim>\<open>all_days\<close> it reads the input file before it fails.
\<close>

theorem window_zero_runs_counterexample:
  "main (example_cli (Some 0) False)
        (example_env [(2000, 100, Num 20, Num 12), (2000, 366, Num 3, Num 1)]) example_world
     = (None,
        \<lparr>stdout = [''Processing a.weather...''], opened = [''in/a.weather''],
         dir_exists = True,
         files = (\<lambda>n. None)(''thermal_time/a.tt.txt'' \<mapsto>
                   [write_header_line False 0, LineB 100 (Num 16) (Num 10) 1])\<rparr>)
   \<and> main (example_cli (Some 0) True)
        (example_env [(2000, 100, Num 20, Num 12), (2000, 366, Num 3, Num 1)]) example_world
     = (Some ValueError,
        \<lparr>stdout = [''Processing a.weather...''], opened = [''in/a.weather''],
         dir_exists = False, files = (\<lambda>n. None)\<rparr>)"
proof -
  have g: "groupby_doy_mean
        [\<lparr>year = Num 2000, doy = 100, tmax = Num 20, tmin = Num 12, tavg = Num 16, tma = None\<rparr>,
         \<lparr>year = Num 2000, doy = 366, tmax = Num 3, tmin = Num 1, tavg = Num 2, tma = None\<rparr>]
      = [\<lparr>year = Num 2000, doy = 100, tmax = Num 20, tmin = Num 12, tavg = Num 16, tma = None\<rparr>,
         \<lparr>year = Num 2000, doy = 366, tmax = Num 3, tmin = Num 1, tavg = Num 2, tma = None\<rparr>]"
    by (simp add: groupby_doy_mean_def mean_skipna_def fsum_def Let_def)
  show ?thesis
    by (simp add: example_cli_def example_env_def example_world_def
      main_def parse_arguments_def endswith_def main_file_def read_weather_def
      main_frame_def rolling_mean_def drop_doy_def g path_join_def output_name_def
      cum_thermal_time_def thermal_time_def write_tt_line_def fge_def fsub_def
      T_THLD_def T_BASE_def T_OPT_def T_MAX_def Let_def)
qed

text \<open>
  C9, amended. A run with a window that is not positive is not rejected before the files
  are processed: \<^verbatim>\<open>parse_arguments\<close> accepts every integer as the window and \<^verbatim>\<open>main\<close>
  never tests it. Without \<^verbatim>\<open>all_days\<close> the window is not used: the run is the run for
  any other window, given or not. With \<^verbatim>\<open>all_days\<close> the run creates and writes no output
  directory and no output file; when the directory holds no file of the extension it
  ends normally; otherwise it reads the first such file and ends there, with the
  exception of \<^verbatim>\<open>read_weather\<close> when the read failed and with the \<open>ValueError\<close> of the
  moving average when it succeeded, and no later file is read.
\<close>

theorem window_not_validated:
  assumes "parse_arguments c = Inr (path, ext, hl, ll, window, all_days)"
    and "window \<le> 0"
  shows "(\<forall>v. parse_arguments (c\<lparr>opt_window := Some v\<rparr>) = Inr (path, ext, hl, ll, v, all_days))
       \<and> (\<not> all_days \<longrightarrow> main c e w = main (c\<lparr>opt_window := w2\<rparr>) e w)
       \<and> (all_days \<longrightarrow>
            files (snd (main c e w)) = files w
            \<and> dir_exists (snd (main c e w)) = dir_exists w
            \<and> (\<forall>names. listdir e path = Inr names \<longrightarrow>
                 (case filter (\<lambda>f. endswith f (''.'' @ ext)) names of
                    [] \<Rightarrow> main c e w = (None, w)
                  | f # fs \<Rightarrow>
                      main c e w =
                        (Some (case read_weather e (path_join path f) hl ll of
                                 Inl err \<Rightarrow> err | Inr x \<Rightarrow> ValueError),
                         w\<lparr>stdout := stdout w @ [''Processing '' @ f @ ''...''],
                           opened := opened w @ [path_join path f]\<rparr>)
                      \<and> fst (main c e w) \<noteq> None
                      \<and> opened (snd (main c e w)) = opened w @ [path_join path f]
                      \<and> (\<forall>lat df. read_weather e (path_join path f) hl ll = Inr (lat, df) \<longrightarrow>
                            fst (main c e w) = Some ValueError))))"
proof (intro conjI impI allI)
  fix v
  from assms(1) show "parse_arguments (c\<lparr>opt_window := Some v\<rparr>)
                        = Inr (path, ext, hl, ll, v, all_days)"
    by (auto simp: parse_arguments_def split: option.splits)
next
  assume b: "\<not> all_days"
  from assms(1) obtain win2 where
    p2: "parse_arguments (c\<lparr>opt_window := w2\<rparr>) = Inr (path, ext, hl, ll, win2, all_days)"
    by (auto simp: parse_arguments_def split: option.splits)
  show "main c e w = main (c\<lparr>opt_window := w2\<rparr>) e w"
    using b assms(1) p2
    by (simp add: main_def main_files_per_doy_window [of path ext hl ll window e _ w win2]
        split: sum.splits)
next
  assume a: "all_days"
  have run: "main c e w =
      (case listdir e path of
         Inl err \<Rightarrow> (Some err, w)
       | Inr names \<Rightarrow>
           (case filter (\<lambda>f. endswith f (''.'' @ ext)) names of
              [] \<Rightarrow> (None, w)
            | f # fs \<Rightarrow>
               (Some (case read_weather e (path_join path f) hl ll of
                        Inl err \<Rightarrow> err | Inr x \<Rightarrow> ValueError),
                w\<lparr>stdout := stdout w @ [''Processing '' @ f @ ''...''],
                  opened := opened w @ [path_join path f]\<rparr>)))"
    using a assms(1)
    by (simp add: main_def main_files_window_fails [OF assms(2)]
        main_file_window_fails [OF assms(2)] split: sum.splits list.splits)
  show "files (snd (main c e w)) = files w"
    by (simp add: run split: sum.splits list.splits)
  show "dir_exists (snd (main c e w)) = dir_exists w"
    by (simp add: run split: sum.splits list.splits)
  fix names
  assume l: "listdir e path = Inr names"
  show "case filter (\<lambda>f. endswith f (''.'' @ ext)) names of
          [] \<Rightarrow> main c e w = (None, w)
        | f # fs \<Rightarrow>
            main c e w =
              (Some (case read_weather e (path_join path f) hl ll of
                       Inl err \<Rightarrow> err | Inr x \<Rightarrow> ValueError),
               w\<lparr>stdout := stdout w @ [''Processing '' @ f @ ''...''],
                 opened := opened w @ [path_join path f]\<rparr>)
            \<and> fst (main c e w) \<noteq> None
            \<and> opened (snd (main c e w)) = opened w @ [path_join path f]
            \<and> (\<forall>lat df. read_weather e (path_join path f) hl ll = Inr (lat, df) \<longrightarrow>
                  fst (main c e w) = Some ValueError)"
    by (simp add: run l split: list.splits)
qed

theorem window_not_validated_witness:
  "parse_arguments (example_cli (Some (- 3)) True) = Inr (''in'', ''weather'', 4, 1, - 3, True)
   \<and> main (example_cli (Some (- 3)) True)
           (example_env [(2000, 100, Num 20, Num 12)]) example_world
       = (Some ValueError,
          \<lparr>stdout = [''Processing a.weather...''], opened = [''in/a.weather''],
           dir_exists = False, files = (\<lambda>n. None)\<rparr>)
   \<and> parse_arguments (example_cli (Some 0) False) = Inr (''in'', ''weather'', 4, 1, 0, False)
   \<and> main (example_cli (Some 0) False)
           (example_env [(2000, 100, Num 20, Num 12)]) example_world
       = main (example_cli None False)
           (example_env [(2000, 100, Num 20, Num 12)]) example_world"
proof (intro conjI)
  show p: "parse_arguments (example_cli (Some (- 3)) True)
             = Inr (''in'', ''weather'', 4, 1, - 3, True)"
    by (simp add: parse_arguments_def example_cli_def)
  have n: "(- 3 :: int) \<le> 0" by simp
  have l: "listdir (example_env [(2000, 100, Num 20, Num 12)]) ''in'' = Inr [''a.weather'']"
    by (simp add: example_env_def)
  have r: "read_weather (example_env [(2000, 100, Num 20, Num 12)])
             (path_join ''in'' ''a.weather'') 4 1
           = Inr (Num 45, [\<lparr>year = Num 2000, doy = 100, tmax = Num 20, tmin = Num 12,
                             tavg = Num 16, tma = None\<rparr>])"
    by (simp add: read_weather_def example_env_def)
  show "main (example_cli (Some (- 3)) True)
           (example_env [(2000, 100, Num 20, Num 12)]) example_world
       = (Some ValueError,
          \<lparr>stdout = [''Processing a.weather...''], opened = [''in/a.weather''],
           dir_exists = False, files = (\<lambda>n. None)\<rparr>)"
    using l r window_not_validated [OF p n,
        of "example_env [(2000, 100, Num 20, Num 12)]" example_world None]
    by (simp add: endswith_def example_world_def path_join_def)
  show q: "parse_arguments (example_cli (Some 0) False)
             = Inr (''in'', ''weather'', 4, 1, 0, False)"
    by (simp add: parse_arguments_def example_cli_def)
  have z: "(0 :: int) \<le> 0" by simp
  show "main (example_cli (Some 0) False)
           (example_env [(2000, 100, Num 20, Num 12)]) example_world
       = main (example_cli None False)
           (example_env [(2000, 100, Num 20, Num 12)]) example_world"
    using window_not_validated [OF q z,
        of "example_env [(2000, 100, Num 20, Num 12)]" example_world None]
    by (simp add: example_cli_def)
qed

text \<open>
  C10. Without \<^verbatim>\<open>all_days\<close>, for a file that \<^verbatim>\<open>read_weather\<close> reads: when some row is
  of day 366, the file is processed, and the output holds after the header one line for
  each other day of the year of the table, in ascending order, so no line of day 366;
  when no row is of day 366, \<^verbatim>\<open>drop(366)\<close> raises \<open>KeyError\<close>, nothing is written for
  the file, and the run ends there with that exception.
\<close>

theorem day_366_required:
  assumes "read_weather e (path_join path file) hl ll = Inr (lat, df)"
  shows "(366 \<in> doy ` set df \<longrightarrow>
            (\<exists>ls. main_file (path, ext, hl, ll, window, False) e file w =
                    (None, w\<lparr>stdout := stdout w @ [''Processing '' @ file @ ''...''],
                             opened := opened w @ [path_join path file],
                             dir_exists := True,
                             files := (files w)(output_name file ext \<mapsto>
                                         write_header_line False window # ls)\<rparr>)
                 \<and> map line_doy ls
                     = map Some (filter (\<lambda>k. k \<noteq> 366) (sort (remdups (map doy df))))))
       \<and> (366 \<notin> doy ` set df \<longrightarrow>
            main_file (path, ext, hl, ll, window, False) e file w =
              (Some KeyError, w\<lparr>stdout := stdout w @ [''Processing '' @ file @ ''...''],
                                 opened := opened w @ [path_join path file]\<rparr>)
            \<and> (endswith file (''.'' @ ext) \<longrightarrow>
                 main_files (path, ext, hl, ll, window, False) e (file # rest) w =
                   (Some KeyError, w\<lparr>stdout := stdout w @ [''Processing '' @ file @ ''...''],
                                      opened := opened w @ [path_join path file]\<rparr>)))"
proof (intro conjI impI)
  assume p: "366 \<in> doy ` set df"
  define df' where "df' = filter (\<lambda>r. doy r \<noteq> 366) (groupby_doy_mean df)"
  have fr: "main_frame False window df = Inr df'"
    using p by (simp add: main_frame_per_doy df'_def)
  obtain err ls where lp: "tt_loop False lat df' 0 (Num 0) = (err, ls)"
    by (cases "tt_loop False lat df' 0 (Num 0)")
  have tc: "fst (tt_loop False lat df' 0 (Num 0)) = None
       \<and> map line_doy (snd (tt_loop False lat df' 0 (Num 0))) = map (\<lambda>r. Some (doy r)) df'"
    by (rule tt_loop_complete) simp
  with lp have e: "err = None" and m: "map line_doy ls = map (\<lambda>r. Some (doy r)) df'"
    by simp_all
  have "map doy df' = filter (\<lambda>k. k \<noteq> 366) (map doy (groupby_doy_mean df))"
    by (simp add: df'_def filter_map comp_def)
  then have d: "map doy df' = filter (\<lambda>k. k \<noteq> 366) (sort (remdups (map doy df)))"
    by (simp only: groupby_doys)
  have "map (\<lambda>r. Some (doy r)) df' = map Some (map doy df')"
    by simp
  with m d have m': "map line_doy ls
      = map Some (filter (\<lambda>k. k \<noteq> 366) (sort (remdups (map doy df))))"
    by simp
  have "main_file (path, ext, hl, ll, window, False) e file w =
          (None, w\<lparr>stdout := stdout w @ [''Processing '' @ file @ ''...''],
                   opened := opened w @ [path_join path file],
                   dir_exists := True,
                   files := (files w)(output_name file ext \<mapsto>
                               write_header_line False window # ls)\<rparr>)"
    using assms fr lp e by (simp add: main_file_def Let_def)
  with m' show "\<exists>ls. main_file (path, ext, hl, ll, window, False) e file w =
                    (None, w\<lparr>stdout := stdout w @ [''Processing '' @ file @ ''...''],
                             opened := opened w @ [path_join path file],
                             dir_exists := True,
                             files := (files w)(output_name file ext \<mapsto>
                                         write_header_line False window # ls)\<rparr>)
                 \<and> map line_doy ls
                     = map Some (filter (\<lambda>k. k \<noteq> 366) (sort (remdups (map doy df))))"
    by blast
next
  assume n: "366 \<notin> doy ` set df"
  show f: "main_file (path, ext, hl, ll, window, False) e file w =
              (Some KeyError, w\<lparr>stdout := stdout w @ [''Processing '' @ file @ ''...''],
                                 opened := opened w @ [path_join path file]\<rparr>)"
    using assms n by (simp add: main_file_def main_frame_per_doy Let_def)
  assume "endswith file (''.'' @ ext)"
  then show "main_files (path, ext, hl, ll, window, False) e (file # rest) w =
                   (Some KeyError, w\<lparr>stdout := stdout w @ [''Processing '' @ file @ ''...''],
                                      opened := opened w @ [path_join path file]\<rparr>)"
    by (simp add: f)
qed

theorem day_366_required_witness:
  "main_file (''in'', ''weather'', 4, 1, 14, False)
        (example_env [(2001, 100, Num 20, Num 12), (2001, 101, Num 22, Num 14)])
        ''a.weather'' example_world
     = (Some KeyError,
        \<lparr>stdout = [''Processing a.weather...''], opened = [''in/a.weather''],
         dir_exists = False, files = (\<lambda>n. None)\<rparr>)
   \<and> main_file (''in'', ''weather'', 4, 1, 14, False)
        (example_env [(2000, 366, Num 3, Num 1), (2000, 100, Num 20, Num 12)])
        ''a.weather'' example_world
     = (None,
        \<lparr>stdout = [''Processing a.weather...''], opened = [''in/a.weather''],
         dir_exists = True,
         files = (\<lambda>n. None)(''thermal_time/a.tt.txt'' \<mapsto>
                   [write_header_line False 14, LineB 100 (Num 16) (Num 10) 1])\<rparr>)"
proof
  have r: "read_weather (example_env [(2001, 100, Num 20, Num 12), (2001, 101, Num 22, Num 14)])
       (path_join ''in'' ''a.weather'') 4 1
     = Inr (Num 45,
            [\<lparr>year = Num 2001, doy = 100, tmax = Num 20, tmin = Num 12, tavg = Num 16, tma = None\<rparr>,
             \<lparr>year = Num 2001, doy = 101, tmax = Num 22, tmin = Num 14, tavg = Num 18, tma = None\<rparr>])"
    by (simp add: read_weather_def example_env_def)
  show "main_file (''in'', ''weather'', 4, 1, 14, False)
        (example_env [(2001, 100, Num 20, Num 12), (2001, 101, Num 22, Num 14)])
        ''a.weather'' example_world
     = (Some KeyError,
        \<lparr>stdout = [''Processing a.weather...''], opened = [''in/a.weather''],
         dir_exists = False, files = (\<lambda>n. None)\<rparr>)"
    using day_366_required [OF r, of "''weather''" 14 example_world]
    by (simp add: example_world_def path_join_def)
next
  have r: "read_weather (example_env [(2000, 366, Num 3, Num 1), (2000, 100, Num 20, Num 12)])
       (path_join ''in'' ''a.weather'') 4 1
     = Inr (Num 45,
            [\<lparr>year = Num 2000, doy = 366, tmax = Num 3, tmin = Num 1, tavg = Num 2, tma = None\<rparr>,
             \<lparr>year = Num 2000, doy = 100, tmax = Num 20, tmin = Num 12, tavg = Num 16, tma = None\<rparr>])"
    by (simp add: read_weather_def example_env_def)
  have g: "groupby_doy_mean
        [\<lparr>year = Num 2000, doy = 366, tmax = Num 3, tmin = Num 1, tavg = Num 2, tma = None\<rparr>,
         \<lparr>year = Num 2000, doy = 100, tmax = Num 20, tmin = Num 12, tavg = Num 16, tma = None\<rparr>]
      = [\<lparr>year = Num 2000, doy = 100, tmax = Num 20, tmin = Num 12, tavg = Num 16, tma = None\<rparr>,
         \<lparr>year = Num 2000, doy = 366, tmax = Num 3, tmin = Num 1, tavg = Num 2, tma = None\<rparr>]"
    by (simp add: groupby_doy_mean_def mean_skipna_def fsum_def Let_def)
  from day_366_required [OF r, of "''weather''" 14 example_world]
  obtain ls where
    m: "main_file (''in'', ''weather'', 4, 1, 14, False)
          (example_env [(2000, 366, Num 3, Num 1), (2000, 100, Num 20, Num 12)])
          ''a.weather'' example_world
        = (None, example_world\<lparr>stdout := stdout example_world @ [''Processing '' @ ''a.weather'' @ ''...''],
                   opened := opened example_world @ [path_join ''in'' ''a.weather''],
                   dir_exists := True,
                   files := (files example_world)(output_name ''a.weather'' ''weather'' \<mapsto>
                               write_header_line False 14 # ls)\<rparr>)"
    by auto
  have v: "main_file (''in'', ''weather'', 4, 1, 14, False)
        (example_env [(2000, 366, Num 3, Num 1), (2000, 100, Num 20, Num 12)])
        ''a.weather'' example_world
     = (None,
        \<lparr>stdout = [''Processing a.weather...''], opened = [''in/a.weather''],
         dir_exists = True,
         files = (\<lambda>n. None)(''thermal_time/a.tt.txt'' \<mapsto>
                   [write_header_line False 14, LineB 100 (Num 16) (Num 10) 1])\<rparr>)"
    using r
    by (simp add: example_world_def main_file_def
      main_frame_def drop_doy_def g path_join_def output_name_def
      cum_thermal_time_def thermal_time_def write_tt_line_def fge_def fsub_def
      T_THLD_def T_BASE_def T_OPT_def T_MAX_def Let_def)
  from m v show "main_file (''in'', ''weather'', 4, 1, 14, False)
        (example_env [(2000, 366, Num 3, Num 1), (2000, 100, Num 20, Num 12)])
        ''a.weather'' example_world
     = (None,
        \<lparr>stdout = [''Processing a.weather...''], opened = [''in/a.weather''],
         dir_exists = True,
         files = (\<lambda>n. None)(''thermal_time/a.tt.txt'' \<mapsto>
                   [write_header_line False 14, LineB 100 (Num 16) (Num 10) 1])\<rparr>)"
    by simp
qed

end
